theory Spec2Isabelle
  imports Complex_Main
begin

section \<open>The NodeNumber scoring plugin (simulator/pkg/nodenumber/plugin.go)\<close>

text \<open>
  A shallow embedding of the plugin's \<^verbatim>\<open>PreScore\<close>, \<^verbatim>\<open>Score\<close>,
  \<^verbatim>\<open>GetLocationData\<close> and \<^verbatim>\<open>GetData\<close>.  A Go panic is the left
  summand of the result of every function that can panic; a Go \<^verbatim>\<open>error\<close> return is
  the left summand of a second sum.  Logging calls (\<^verbatim>\<open>klog.InfoS\<close>) have no effect
  on any returned value and are left out.
\<close>

subsection \<open>Panics, errors and slices\<close>

datatype panic =
    IndexOutOfRange int        \<comment> \<open>runtime error: index out of range [i]\<close>
  | SliceBoundsOutOfRange int  \<comment> \<open>runtime error: slice bounds out of range [i:]\<close>

datatype error =
    ErrSyntax          \<comment> \<open>strconv.ErrSyntax\<close>
  | ErrRange           \<comment> \<open>strconv.ErrRange\<close>
  | OtherError string  \<comment> \<open>any error of net/http, io or encoding/json\<close>

text \<open>\<^verbatim>\<open>s[i]\<close>: Go panics unless \<open>0 \<le> i < len(s)\<close>.\<close>

definition slice_index :: "'a list \<Rightarrow> int \<Rightarrow> panic + 'a" where
  "slice_index s i =
     (if 0 \<le> i \<and> i < int (length s) then Inr (s ! nat i) else Inl (IndexOutOfRange i))"

text \<open>\<^verbatim>\<open>s[lo:]\<close>: Go panics unless \<open>0 \<le> lo \<le> len(s)\<close>.\<close>

definition slice_from :: "'a list \<Rightarrow> int \<Rightarrow> panic + 'a list" where
  "slice_from s lo =
     (if 0 \<le> lo \<and> lo \<le> int (length s) then Inr (drop (nat lo) s)
      else Inl (SliceBoundsOutOfRange lo))"

text \<open>
  \<^verbatim>\<open>slices.IndexFunc(s, f)\<close>: the first index \<open>i\<close> with \<open>f(s[i])\<close>, or \<open>-1\<close>.
\<close>

fun IndexFunc_from :: "int \<Rightarrow> 'a list \<Rightarrow> ('a \<Rightarrow> bool) \<Rightarrow> int" where
  "IndexFunc_from i [] f = -1"
| "IndexFunc_from i (x # xs) f = (if f x then i else IndexFunc_from (i + 1) xs f)"

definition IndexFunc :: "'a list \<Rightarrow> ('a \<Rightarrow> bool) \<Rightarrow> int" where
  "IndexFunc s f = IndexFunc_from 0 s f"

subsection \<open>strconv.Atoi\<close>

definition is_digit :: "char \<Rightarrow> bool" where
  "is_digit c = (48 \<le> (of_char c :: nat) \<and> (of_char c :: nat) \<le> 57)"

fun all_digits :: "string \<Rightarrow> bool" where
  "all_digits [] = True"
| "all_digits (c # cs) = (is_digit c \<and> all_digits cs)"

fun digits_value :: "int \<Rightarrow> string \<Rightarrow> int" where
  "digits_value acc [] = acc"
| "digits_value acc (c # cs) = digits_value (acc * 10 + (int (of_char c) - 48)) cs"

text \<open>
  An optional sign, then at least one decimal digit and nothing else; the value must fit
  Go's 64-bit \<^verbatim>\<open>int\<close>.  For a text that is both malformed and too long
  \<^verbatim>\<open>strconv\<close> may report the range error first; the plugin treats every error
  alike.
\<close>

definition Atoi :: "string \<Rightarrow> error + int" where
  "Atoi s =
     (let neg = (s \<noteq> [] \<and> hd s = CHR ''-'');
          ds = (if s \<noteq> [] \<and> (hd s = CHR ''-'' \<or> hd s = CHR ''+'') then tl s else s)
      in if ds = [] \<or> \<not> all_digits ds then Inl ErrSyntax
         else (let v = (if neg then - digits_value 0 ds else digits_value 0 ds)
               in if v < - (2 ^ 63) \<or> 2 ^ 63 \<le> v then Inl ErrRange else Inr v))"

subsection \<open>float64\<close>

text \<open>
  A \<^verbatim>\<open>float64\<close> is a finite real (\<open>Fin 0\<close> is \<open>+0\<close>), the negative zero, an
  infinity or a NaN.  The special cases of every operation are those of IEEE 754; the
  rounding of a finite nonzero exact result to 53 bits (with overflow to an infinity and
  underflow to a zero) is the function \<open>rnd\<close> of the runtime below.  Every operation
  is rounded on its own: a compiler that fuses \<^verbatim>\<open>x*y + z\<close> into one operation
  rounds once where this model rounds twice.
\<close>

datatype float64 = Fin real | NegZero | PInf | NInf | NaN

fun fval :: "float64 \<Rightarrow> real" where
  "fval (Fin r) = r"
| "fval NegZero = 0"
| "fval PInf = 0"
| "fval NInf = 0"
| "fval NaN = 0"

fun is_neg :: "float64 \<Rightarrow> bool" where
  "is_neg (Fin r) = (r < 0)"
| "is_neg NegZero = True"
| "is_neg PInf = False"
| "is_neg NInf = True"
| "is_neg NaN = False"

fun is_zero :: "float64 \<Rightarrow> bool" where
  "is_zero (Fin r) = (r = 0)"
| "is_zero NegZero = True"
| "is_zero PInf = False"
| "is_zero NInf = False"
| "is_zero NaN = False"

fun is_inf :: "float64 \<Rightarrow> bool" where
  "is_inf (Fin r) = False"
| "is_inf NegZero = False"
| "is_inf PInf = True"
| "is_inf NInf = True"
| "is_inf NaN = False"

fun is_finite :: "float64 \<Rightarrow> bool" where
  "is_finite (Fin r) = True"
| "is_finite NegZero = True"
| "is_finite PInf = False"
| "is_finite NInf = False"
| "is_finite NaN = False"

definition signed_zero :: "bool \<Rightarrow> float64" where
  "signed_zero neg = (if neg then NegZero else Fin 0)"

definition signed_inf :: "bool \<Rightarrow> float64" where
  "signed_inf neg = (if neg then NInf else PInf)"

text \<open>The order of the non-NaN values; the two zeros are equal.\<close>

definition f64_le :: "float64 \<Rightarrow> float64 \<Rightarrow> bool" where
  "f64_le x y =
     (x \<noteq> NaN \<and> y \<noteq> NaN \<and>
      (x = NInf \<or> y = PInf \<or> (is_finite x \<and> is_finite y \<and> fval x \<le> fval y)))"

subsection \<open>The telemetry record\<close>

record LocationData =
  Time :: string
  BatteryCharge :: float64
  RenewableOutput :: float64
  PrimaryLoad :: float64
  UnmetLoad :: float64
  Location :: string

subsection \<open>The Go runtime and library, and the network\<close>

text \<open>
  What the plugin calls and the repository does not hold is a parameter of the model:
  \<^item> \<open>rnd\<close>: the float64 nearest to a nonzero real (round to nearest, ties to even);
  \<^item> \<open>pow_E\<close>: \<^verbatim>\<open>math.Pow(math.E, y)\<close> at a finite nonzero \<open>y\<close>;
  \<^item> \<open>cvt_invalid\<close>: the result of \<^verbatim>\<open>int64(x)\<close> where the Go specification
    leaves it to the implementation (NaN, an infinity, a value outside int64);
  \<^item> \<open>json_Unmarshal\<close>: \<^verbatim>\<open>json.Unmarshal(body, &data)\<close> for
    \<^verbatim>\<open>data []LocationData\<close>.
\<close>

record Runtime =
  rnd :: "real \<Rightarrow> float64"
  pow_E :: "real \<Rightarrow> float64"
  cvt_invalid :: "float64 \<Rightarrow> int"
  json_Unmarshal :: "string \<Rightarrow> error + LocationData list"

text \<open>
  The network at the time of a call: \<^verbatim>\<open>http.Get(url)\<close> fails or gives a response,
  whose \<open>Body\<close> is what \<^verbatim>\<open>io.ReadAll(resp.Body)\<close> returns.
\<close>

record Response =
  Body :: "error + string"

record World =
  http_Get :: "string \<Rightarrow> error + Response"

subsection \<open>float64 arithmetic\<close>

fun fneg :: "float64 \<Rightarrow> float64" where
  "fneg (Fin r) = (if r = 0 then NegZero else Fin (- r))"
| "fneg NegZero = Fin 0"
| "fneg PInf = NInf"
| "fneg NInf = PInf"
| "fneg NaN = NaN"

definition fadd :: "Runtime \<Rightarrow> float64 \<Rightarrow> float64 \<Rightarrow> float64" where
  "fadd rt x y =
     (if x = NaN \<or> y = NaN then NaN
      else if is_inf x \<and> is_inf y then (if x = y then x else NaN)
      else if is_inf x then x
      else if is_inf y then y
      else if fval x + fval y = 0 then signed_zero (x = NegZero \<and> y = NegZero)
      else rnd rt (fval x + fval y))"

definition fsub :: "Runtime \<Rightarrow> float64 \<Rightarrow> float64 \<Rightarrow> float64" where
  "fsub rt x y = fadd rt x (fneg y)"

definition fmul :: "Runtime \<Rightarrow> float64 \<Rightarrow> float64 \<Rightarrow> float64" where
  "fmul rt x y =
     (if x = NaN \<or> y = NaN then NaN
      else if (is_inf x \<and> is_zero y) \<or> (is_zero x \<and> is_inf y) then NaN
      else if is_inf x \<or> is_inf y then signed_inf (is_neg x \<noteq> is_neg y)
      else if is_zero x \<or> is_zero y then signed_zero (is_neg x \<noteq> is_neg y)
      else rnd rt (fval x * fval y))"

definition fdiv :: "Runtime \<Rightarrow> float64 \<Rightarrow> float64 \<Rightarrow> float64" where
  "fdiv rt x y =
     (if x = NaN \<or> y = NaN then NaN
      else if (is_inf x \<and> is_inf y) \<or> (is_zero x \<and> is_zero y) then NaN
      else if is_inf x \<or> is_zero y then signed_inf (is_neg x \<noteq> is_neg y)
      else if is_zero x \<or> is_inf y then signed_zero (is_neg x \<noteq> is_neg y)
      else rnd rt (fval x / fval y))"

text \<open>\<^verbatim>\<open>math.Round\<close>: the nearest integer, halves away from zero.\<close>

definition round_half_away :: "real \<Rightarrow> int" where
  "round_half_away r = (if r < 0 then - \<lfloor>- r + 1 / 2\<rfloor> else \<lfloor>r + 1 / 2\<rfloor>)"

fun Round :: "float64 \<Rightarrow> float64" where
  "Round (Fin r) =
     (if round_half_away r = 0 \<and> r < 0 then NegZero else Fin (of_int (round_half_away r)))"
| "Round NegZero = NegZero"
| "Round PInf = PInf"
| "Round NInf = NInf"
| "Round NaN = NaN"

text \<open>\<^verbatim>\<open>math.Pow(math.E, y)\<close>, with the special cases of \<^verbatim>\<open>math.Pow\<close>.\<close>

fun Pow_E :: "Runtime \<Rightarrow> float64 \<Rightarrow> float64" where
  "Pow_E rt (Fin r) = (if r = 0 then Fin 1 else pow_E rt r)"
| "Pow_E rt NegZero = Fin 1"
| "Pow_E rt PInf = PInf"
| "Pow_E rt NInf = Fin 0"
| "Pow_E rt NaN = NaN"

text \<open>\<^verbatim>\<open>int64(x)\<close>: truncation toward zero where the result fits.\<close>

definition trunc :: "real \<Rightarrow> int" where
  "trunc r = (if r < 0 then - \<lfloor>- r\<rfloor> else \<lfloor>r\<rfloor>)"

fun to_int64 :: "Runtime \<Rightarrow> float64 \<Rightarrow> int" where
  "to_int64 rt (Fin r) =
     (if - (2 ^ 63) \<le> trunc r \<and> trunc r < 2 ^ 63 then trunc r else cvt_invalid rt (Fin r))"
| "to_int64 rt NegZero = 0"
| "to_int64 rt PInf = cvt_invalid rt PInf"
| "to_int64 rt NInf = cvt_invalid rt NInf"
| "to_int64 rt NaN = cvt_invalid rt NaN"

subsection \<open>The host's data\<close>

record Node =
  node_Name :: string
  Labels :: "string \<rightharpoonup> string"

text \<open>
  \<^verbatim>\<open>framework.NodeInfo\<close>: \<open>Node\<close> is its \<^verbatim>\<open>Node()\<close>. The scheduler's snapshot
  lists only node infos whose node is set, so a nil node is not modelled.
\<close>

record NodeInfo =
  Node :: Node

text \<open>
  \<^verbatim>\<open>framework.Handle\<close>: \<open>NodeInfos_List\<close> is what
  \<^verbatim>\<open>SnapshotSharedLister().NodeInfos().List()\<close> returns (its error is dropped by the
  plugin).
\<close>

record Handle =
  NodeInfos_List :: "NodeInfo list"

record NodeNumber =
  fh :: Handle
  reverse :: bool

record Pod =
  pod_Name :: string

record preScoreState =
  podSuffixNumber :: int

type_synonym CycleState = "string \<rightharpoonup> preScoreState"

datatype Status = Status int string

text \<open>A map read: the zero value for a missing key.\<close>

definition map_read :: "(string \<rightharpoonup> string) \<Rightarrow> string \<Rightarrow> string" where
  "map_read m k = (case m k of None \<Rightarrow> [] | Some v \<Rightarrow> v)"

subsection \<open>The plugin\<close>

definition Name :: string where
  "Name = ''NodeNumber''"

definition preScoreStateKey :: string where
  "preScoreStateKey = ''PreScore'' @ Name"

text \<open>The result is the cycle state after the call and the returned status (nil is \<open>None\<close>).\<close>

definition PreScore ::
  "NodeNumber \<Rightarrow> CycleState \<Rightarrow> Pod \<Rightarrow> NodeInfo list \<Rightarrow> panic + (CycleState \<times> Status option)"
where
  "PreScore pl state pod nodes =
     (case slice_from (pod_Name pod) (int (length (pod_Name pod)) - 1) of
        Inl p \<Rightarrow> Inl p
      | Inr podNameLastChar \<Rightarrow>
          (case Atoi podNameLastChar of
             Inl err \<Rightarrow> Inr (state, None)
           | Inr podnum \<Rightarrow>
               Inr (state(preScoreStateKey \<mapsto> \<lparr>podSuffixNumber = podnum\<rparr>), None)))"

definition GetLocationBatteryCharge :: "string \<Rightarrow> LocationData list \<Rightarrow> panic + float64" where
  "GetLocationBatteryCharge loc data =
     (case slice_index data (IndexFunc data (\<lambda>d. Location d = loc)) of
        Inl p \<Rightarrow> Inl p
      | Inr d \<Rightarrow> Inr (BatteryCharge d))"

definition GetLocationData :: "string \<Rightarrow> LocationData list \<Rightarrow> panic + LocationData" where
  "GetLocationData loc data = slice_index data (IndexFunc data (\<lambda>d. Location d = loc))"

definition GetData :: "Runtime \<Rightarrow> World \<Rightarrow> error + LocationData list" where
  "GetData rt w =
     (case http_Get w ''https://p9-scheduler-plugins.vercel.app/data'' of
        Inl err \<Rightarrow> Inl err
      | Inr resp \<Rightarrow>
          (case Body resp of
             Inl err \<Rightarrow> Inl err
           | Inr body \<Rightarrow>
               (case json_Unmarshal rt body of
                  Inl err \<Rightarrow> Inl err
                | Inr data \<Rightarrow> Inr data)))"

text \<open>
  The numeric part of \<^verbatim>\<open>Score\<close> (lines 132 to 136).  The constant expression
  \<^verbatim>\<open>-0.05*100\<close> is evaluated exactly by the compiler: it is \<open>-5\<close>.
\<close>

definition renewDiff :: "Runtime \<Rightarrow> LocationData \<Rightarrow> float64" where
  "renewDiff rt d = fdiv rt (fsub rt (RenewableOutput d) (PrimaryLoad d)) (PrimaryLoad d)"

definition renewScore :: "Runtime \<Rightarrow> LocationData \<Rightarrow> float64" where
  "renewScore rt d =
     fdiv rt (Fin 100) (fadd rt (Fin 1) (Pow_E rt (fmul rt (Fin (- 5)) (renewDiff rt d))))"

definition blend :: "Runtime \<Rightarrow> LocationData \<Rightarrow> int" where
  "blend rt d =
     to_int64 rt
       (fadd rt (fmul rt (Round (renewScore rt d)) (Fin (1 / 2)))
                (fmul rt (fsub rt (Round (BatteryCharge d)) (Fin 20)) (Fin (1 / 2))))"

definition Score ::
  "Runtime \<Rightarrow> World \<Rightarrow> NodeNumber \<Rightarrow> CycleState \<Rightarrow> Pod \<Rightarrow> string \<Rightarrow> panic + (int \<times> Status option)"
where
  "Score rt w pl state pod nodeName =
     (case GetData rt w of
        Inl apierr \<Rightarrow> Inr (22, None)
      | Inr apiData \<Rightarrow>
          (let nodeList = NodeInfos_List (fh pl);
               idx = IndexFunc nodeList (\<lambda>n. node_Name (Node n) = nodeName)
           in case slice_index nodeList idx of
                Inl p \<Rightarrow> Inl p
              | Inr n \<Rightarrow>
                  (let location = map_read (Labels (Node n)) ''location''
                   in case GetLocationData location apiData of
                        Inl p \<Rightarrow> Inl p
                      | Inr d \<Rightarrow> Inr (blend rt d, None))))"

subsection \<open>What IEEE 754 rounding guarantees\<close>

text \<open>
  The properties of the runtime's \<open>rnd\<close> and \<open>pow_E\<close> that the numeric theorems rely
  on.  Round-to-nearest has all three of the first group: it never yields a NaN, it is
  monotone, and it is exact on every \<open>k / 1024\<close> with \<open>|k| \<le> 2^53\<close> (a 53-bit
  significand).  \<^verbatim>\<open>math.Pow(math.E, y)\<close> is a nonnegative number or \<open>+Inf\<close>, and
  for \<open>|y| \<le> 2\<close> it is assumed within a relative error of \<open>2^-10\<close> of \<open>exp y\<close>.
\<close>

definition ieee_rounding :: "Runtime \<Rightarrow> bool" where
  "ieee_rounding rt \<longleftrightarrow>
     (\<forall>r. rnd rt r \<noteq> NaN) \<and>
     (\<forall>x y. x \<le> y \<longrightarrow> f64_le (rnd rt x) (rnd rt y)) \<and>
     (\<forall>k::int. \<bar>k\<bar> \<le> 2 ^ 53 \<longrightarrow> rnd rt (of_int k / 1024) = Fin (of_int k / 1024)) \<and>
     (\<forall>r. f64_le (Fin 0) (pow_E rt r)) \<and>
     (\<forall>r. \<bar>r\<bar> \<le> 2 \<longrightarrow> (\<exists>p. pow_E rt r = Fin p \<and> \<bar>p - exp r\<bar> \<le> exp r / 1024))"

subsection \<open>Concrete inputs\<close>

text \<open>
  A runtime without rounding error whose JSON decoder is a finite table from bodies to
  decoded records (every other body is rejected), worlds whose telemetry endpoint
  answers with a given body or not at all, and a plugin whose snapshot holds one node.
\<close>

definition table_runtime :: "(string \<times> LocationData list) list \<Rightarrow> Runtime" where
  "table_runtime tbl =
     \<lparr>rnd = Fin,
      pow_E = (\<lambda>r. Fin (exp r)),
      cvt_invalid = (\<lambda>x. - (2 ^ 63)),
      json_Unmarshal = (\<lambda>body. case map_of tbl body of
                                  None \<Rightarrow> Inl (OtherError ''invalid character'')
                                | Some data \<Rightarrow> Inr data)\<rparr>"

definition serving :: "string \<Rightarrow> World" where
  "serving body =
     \<lparr>http_Get = (\<lambda>url. if url = ''https://p9-scheduler-plugins.vercel.app/data''
                          then Inr \<lparr>Body = Inr body\<rparr>
                          else Inl (OtherError ''no such host''))\<rparr>"

definition unreachable :: World where
  "unreachable = \<lparr>http_Get = (\<lambda>url. Inl (OtherError ''connection refused''))\<rparr>"

definition one_node :: "string \<Rightarrow> string \<Rightarrow> NodeNumber" where
  "one_node name loc =
     \<lparr>fh = \<lparr>NodeInfos_List = [\<lparr>Node = \<lparr>node_Name = name, Labels = [''location'' \<mapsto> loc]\<rparr>\<rparr>]\<rparr>,
      reverse = False\<rparr>"

definition telemetry :: "string \<Rightarrow> real \<Rightarrow> real \<Rightarrow> real \<Rightarrow> LocationData" where
  "telemetry loc battery renewable load =
     \<lparr>Time = [], BatteryCharge = Fin battery, RenewableOutput = Fin renewable,
      PrimaryLoad = Fin load, UnmetLoad = Fin 0, Location = loc\<rparr>"

definition body_sample :: string where
  \<open>body_sample =
     ''[{"Battery_charge":80,"Renewable_output":120,"Primary_load":100,"Location":"aalborg"}]''\<close>

definition body_half :: string where
  \<open>body_half =
     ''[{"Battery_charge":50,"Renewable_output":100,"Primary_load":100,"Location":"aalborg"}]''\<close>

definition body_overcharged :: string where
  \<open>body_overcharged =
     ''[{"Battery_charge":1000,"Renewable_output":100,"Primary_load":100,"Location":"aalborg"}]''\<close>

definition body_no_load :: string where
  \<open>body_no_load =
     ''[{"Battery_charge":80,"Renewable_output":120,"Primary_load":0,"Location":"aalborg"}]''\<close>

section \<open>Auxiliary facts\<close>

subsection \<open>Slices and lookups\<close>

lemma IndexFunc_from_none:
  "(\<And>x. x \<in> set xs \<Longrightarrow> \<not> f x) \<Longrightarrow> IndexFunc_from i xs f = - 1"
  by (induction xs arbitrary: i) auto

lemma IndexFunc_from_found:
  "\<exists>x \<in> set xs. f x \<Longrightarrow>
     i \<le> IndexFunc_from i xs f \<and> IndexFunc_from i xs f < i + int (length xs) \<and>
     f (xs ! nat (IndexFunc_from i xs f - i)) \<and>
     (\<forall>j < nat (IndexFunc_from i xs f - i). \<not> f (xs ! j))"
proof (induction xs arbitrary: i)
  case Nil
  then show ?case by simp
next
  case (Cons x xs)
  show ?case
  proof (cases "f x")
    case True
    then show ?thesis by simp
  next
    case False
    with Cons.prems have ex: "\<exists>x \<in> set xs. f x" by auto
    note IH = Cons.IH [OF ex, of "i + 1"]
    let ?r = "IndexFunc_from (i + 1) xs f"
    have eq: "IndexFunc_from i (x # xs) f = ?r" using False by simp
    have n: "nat (?r - i) = Suc (nat (?r - (i + 1)))" using IH by linarith
    show ?thesis unfolding eq n using IH False
      by (auto simp: less_Suc_eq_0_disj)
  qed
qed

lemma IndexFunc_none: "(\<And>x. x \<in> set xs \<Longrightarrow> \<not> f x) \<Longrightarrow> IndexFunc xs f = - 1"
  unfolding IndexFunc_def by (rule IndexFunc_from_none)

lemma IndexFunc_found:
  assumes "\<exists>x \<in> set xs. f x"
  shows "0 \<le> IndexFunc xs f" and "IndexFunc xs f < int (length xs)"
    and "f (xs ! nat (IndexFunc xs f))"
    and "\<forall>j < nat (IndexFunc xs f). \<not> f (xs ! j)"
  using IndexFunc_from_found [OF assms, of 0] unfolding IndexFunc_def by simp_all

lemma slice_index_neg: "slice_index s (- 1) = Inl (IndexOutOfRange (- 1))"
  by (simp add: slice_index_def)

lemma slice_index_in: "0 \<le> i \<Longrightarrow> i < int (length s) \<Longrightarrow> slice_index s i = Inr (s ! nat i)"
  by (simp add: slice_index_def)

lemma GetData_serving:
  "GetData (table_runtime [(body, data)]) (serving body) = Inr data"
  by (simp add: GetData_def serving_def table_runtime_def)

lemma one_node_lookup:
  "slice_index (NodeInfos_List (fh (one_node name loc)))
     (IndexFunc (NodeInfos_List (fh (one_node name loc))) (\<lambda>n. node_Name (Node n) = name)) =
   Inr \<lparr>Node = \<lparr>node_Name = name, Labels = [''location'' \<mapsto> loc]\<rparr>\<rparr>"
  by (simp add: one_node_def IndexFunc_def slice_index_def)

lemma GetLocationData_single:
  "GetLocationData loc [telemetry loc b r l] = Inr (telemetry loc b r l)"
  by (simp add: GetLocationData_def IndexFunc_def slice_index_def telemetry_def)

lemma GetLocationData_missing:
  "(\<And>d. d \<in> set data \<Longrightarrow> Location d \<noteq> loc) \<Longrightarrow>
   GetLocationData loc data = Inl (IndexOutOfRange (- 1))"
  by (simp add: GetLocationData_def IndexFunc_none slice_index_neg)

lemma Score_lookup_panics:
  assumes "GetData rt w = Inr apiData"
    and "slice_index (NodeInfos_List (fh pl))
           (IndexFunc (NodeInfos_List (fh pl)) (\<lambda>n. node_Name (Node n) = nodeName)) = Inr n"
    and "GetLocationData (map_read (Labels (Node n)) ''location'') apiData = Inl p"
  shows "Score rt w pl state pod nodeName = Inl p"
  using assms by (simp add: Score_def)

lemma slice_from_last:
  assumes "s \<noteq> []"
  shows "slice_from s (int (length s) - 1) = Inr [last s]"
proof -
  from assms obtain ys where s: "s = ys @ [last s]"
    by (metis append_butlast_last_id)
  have "nat (int (length s) - 1) = length ys"
    by (subst s) simp
  moreover have "drop (length ys) s = [last s]"
    by (subst s) simp
  ultimately show ?thesis using assms by (simp add: slice_from_def)
qed

lemma is_digit_range: "is_digit c \<Longrightarrow> 0 \<le> int (of_char c) - 48 \<and> int (of_char c) - 48 \<le> 9"
  by (auto simp: is_digit_def)

lemma Atoi_single:
  "Atoi [c] = (if is_digit c then Inr (int (of_char c) - 48) else Inl ErrSyntax)"
proof (cases "c = CHR ''-'' \<or> c = CHR ''+''")
  case True
  then show ?thesis by (auto simp: Atoi_def is_digit_def)
next
  case False
  then show ?thesis using is_digit_range [of c] by (auto simp: Atoi_def Let_def)
qed

subsection \<open>Rounding\<close>

lemma ieee_rounding_table_runtime: "ieee_rounding (table_runtime tbl)"
  by (simp add: ieee_rounding_def table_runtime_def f64_le_def)

lemma rnd_not_NaN: "ieee_rounding rt \<Longrightarrow> rnd rt r \<noteq> NaN"
  by (simp add: ieee_rounding_def)

lemma rnd_exact:
  "ieee_rounding rt \<Longrightarrow> \<bar>k\<bar> \<le> 2 ^ 53 \<Longrightarrow> rnd rt (real_of_int k / 1024) = Fin (real_of_int k / 1024)"
  by (simp add: ieee_rounding_def)

lemma rnd_mono: "ieee_rounding rt \<Longrightarrow> x \<le> y \<Longrightarrow> f64_le (rnd rt x) (rnd rt y)"
  by (simp add: ieee_rounding_def)

lemma rnd_between:
  assumes "ieee_rounding rt" and "\<bar>ka\<bar> \<le> 2 ^ 53" and "\<bar>kb\<bar> \<le> 2 ^ 53"
    and "real_of_int ka / 1024 \<le> r" and "r \<le> real_of_int kb / 1024"
  shows "is_finite (rnd rt r) \<and> real_of_int ka / 1024 \<le> fval (rnd rt r) \<and>
         fval (rnd rt r) \<le> real_of_int kb / 1024"
proof -
  have a: "rnd rt (real_of_int ka / 1024) = Fin (real_of_int ka / 1024)"
    and b: "rnd rt (real_of_int kb / 1024) = Fin (real_of_int kb / 1024)"
    using assms(1-3) by (simp_all add: rnd_exact)
  have "f64_le (rnd rt (real_of_int ka / 1024)) (rnd rt r)"
    and "f64_le (rnd rt r) (rnd rt (real_of_int kb / 1024))"
    using assms(1,4,5) by (simp_all add: rnd_mono)
  then show ?thesis unfolding a b by (cases "rnd rt r") (auto simp: f64_le_def)
qed

lemma rnd_int:
  assumes "ieee_rounding rt" and "\<bar>n\<bar> \<le> 2 ^ 43"
  shows "rnd rt (real_of_int n) = Fin (real_of_int n)"
proof -
  have "\<bar>1024 * n\<bar> \<le> 2 ^ 53" using assms(2) by simp
  from rnd_exact [OF assms(1) this] show ?thesis by simp
qed

lemma rnd_half:
  assumes "ieee_rounding rt" and "\<bar>n\<bar> \<le> 2 ^ 44"
  shows "rnd rt (real_of_int n / 2) = Fin (real_of_int n / 2)"
proof -
  have "\<bar>512 * n\<bar> \<le> 2 ^ 53" using assms(2) by simp
  from rnd_exact [OF assms(1) this] show ?thesis by simp
qed

lemma fsub_finite:
  "ieee_rounding rt \<Longrightarrow> is_finite x \<Longrightarrow> is_finite y \<Longrightarrow> fsub rt x y \<noteq> NaN"
  by (cases x; cases y) (auto simp: fsub_def fadd_def signed_zero_def rnd_not_NaN)

lemma fdiv_not_NaN:
  "ieee_rounding rt \<Longrightarrow> x \<noteq> NaN \<Longrightarrow> is_finite y \<Longrightarrow> \<not> is_zero y \<Longrightarrow> fdiv rt x y \<noteq> NaN"
  by (cases x; cases y) (auto simp: fdiv_def signed_zero_def signed_inf_def rnd_not_NaN)

lemma fmul_const_not_NaN:
  "ieee_rounding rt \<Longrightarrow> q \<noteq> NaN \<Longrightarrow> c \<noteq> 0 \<Longrightarrow> fmul rt (Fin c) q \<noteq> NaN"
  by (cases q) (auto simp: fmul_def signed_zero_def signed_inf_def rnd_not_NaN)

lemma Pow_E_nonneg: "ieee_rounding rt \<Longrightarrow> m \<noteq> NaN \<Longrightarrow> f64_le (Fin 0) (Pow_E rt m)"
  by (cases m) (auto simp: ieee_rounding_def f64_le_def)

lemma fadd_one_ge:
  assumes "ieee_rounding rt" and "f64_le (Fin 0) p"
  shows "f64_le (Fin 1) (fadd rt (Fin 1) p)"
proof (cases "is_finite p")
  case False
  with assms(2) have "p = PInf" by (cases p) (auto simp: f64_le_def)
  then show ?thesis by (simp add: fadd_def f64_le_def)
next
  case True
  with assms(2) have nn: "0 \<le> fval p" and p: "p \<noteq> NaN" "\<not> is_inf p"
    by (cases p; auto simp: f64_le_def)+
  have "rnd rt (real_of_int 1024 / 1024) = Fin (real_of_int 1024 / 1024)"
    by (rule rnd_exact [OF assms(1)]) simp
  then have one: "rnd rt 1 = Fin 1" by simp
  have "f64_le (rnd rt 1) (rnd rt (1 + fval p))"
    by (rule rnd_mono [OF assms(1)]) (use nn in simp)
  moreover have "fadd rt (Fin 1) p = rnd rt (1 + fval p)"
    using p nn by (simp add: fadd_def)
  ultimately show ?thesis by (simp add: one)
qed

lemma fdiv_hundred:
  assumes "ieee_rounding rt" and "f64_le (Fin 1) s"
  shows "is_finite (fdiv rt (Fin 100) s) \<and> 0 \<le> fval (fdiv rt (Fin 100) s) \<and>
         fval (fdiv rt (Fin 100) s) \<le> 100"
proof (cases "is_finite s")
  case False
  with assms(2) have "s = PInf" by (cases s) (auto simp: f64_le_def)
  then show ?thesis by (simp add: fdiv_def signed_zero_def)
next
  case True
  with assms(2) have ge: "1 \<le> fval s" and s: "s \<noteq> NaN" "\<not> is_inf s" "\<not> is_zero s"
    by (cases s; auto simp: f64_le_def)+
  have eq: "fdiv rt (Fin 100) s = rnd rt (100 / fval s)"
    using s by (simp add: fdiv_def)
  have "real_of_int 0 / 1024 \<le> 100 / fval s" using ge by simp
  moreover have "100 / fval s \<le> real_of_int 102400 / 1024"
    using ge by (simp add: field_simps)
  ultimately have "is_finite (rnd rt (100 / fval s)) \<and>
      real_of_int 0 / 1024 \<le> fval (rnd rt (100 / fval s)) \<and>
      fval (rnd rt (100 / fval s)) \<le> real_of_int 102400 / 1024"
    by (intro rnd_between [OF assms(1)]) simp_all
  then show ?thesis unfolding eq by simp
qed

lemma renewScore_range:
  assumes "ieee_rounding rt" and "is_finite (RenewableOutput d)" and "is_finite (PrimaryLoad d)"
    and "\<not> is_zero (PrimaryLoad d)"
  shows "is_finite (renewScore rt d) \<and> 0 \<le> fval (renewScore rt d) \<and> fval (renewScore rt d) \<le> 100"
  unfolding renewScore_def renewDiff_def
  by (intro fdiv_hundred fadd_one_ge Pow_E_nonneg fmul_const_not_NaN fdiv_not_NaN fsub_finite assms)
     simp

lemma Round_finite:
  "is_finite x \<Longrightarrow> is_finite (Round x) \<and> fval (Round x) = real_of_int (round_half_away (fval x))"
  by (cases x) (auto simp: round_half_away_def)

lemma fmul_half:
  assumes "ieee_rounding rt" and "is_finite x" and "fval x = real_of_int n" and "\<bar>n\<bar> \<le> 2 ^ 44"
  shows "is_finite (fmul rt x (Fin (1 / 2))) \<and> fval (fmul rt x (Fin (1 / 2))) = real_of_int n / 2"
proof (cases "is_zero x")
  case True
  then have "fval x = 0" by (cases x) auto
  with assms(3) have "n = 0" by simp
  with True assms(2) show ?thesis by (cases x) (auto simp: fmul_def signed_zero_def)
next
  case False
  with assms(2) have "fmul rt x (Fin (1 / 2)) = rnd rt (fval x * (1 / 2))"
    by (cases x) (auto simp: fmul_def)
  also have "\<dots> = rnd rt (real_of_int n / 2)" by (simp add: assms(3))
  also have "\<dots> = Fin (real_of_int n / 2)" by (rule rnd_half [OF assms(1,4)])
  finally show ?thesis by simp
qed

lemma fsub_twenty:
  assumes "ieee_rounding rt" and "is_finite x" and "fval x = real_of_int n" and "\<bar>n - 20\<bar> \<le> 2 ^ 43"
  shows "is_finite (fsub rt x (Fin 20)) \<and> fval (fsub rt x (Fin 20)) = real_of_int (n - 20)"
proof (cases "n = 20")
  case True
  with assms(2,3) show ?thesis by (cases x) (auto simp: fsub_def fadd_def signed_zero_def)
next
  case False
  with assms(2,3) have "fsub rt x (Fin 20) = rnd rt (real_of_int (n - 20))"
    by (cases x) (auto simp: fsub_def fadd_def)
  also have "\<dots> = Fin (real_of_int (n - 20))" by (rule rnd_int [OF assms(1,4)])
  finally show ?thesis by simp
qed

lemma fadd_halves:
  assumes "ieee_rounding rt" and "is_finite x" and "is_finite y"
    and "fval x = real_of_int a / 2" and "fval y = real_of_int b / 2" and "\<bar>a + b\<bar> \<le> 2 ^ 44"
  shows "is_finite (fadd rt x y) \<and> fval (fadd rt x y) = real_of_int (a + b) / 2"
proof (cases "a + b = 0")
  case True
  then have "fval x + fval y = 0" using assms(4,5)
    by (simp add: add_divide_distrib [symmetric] del: of_int_add add: of_int_add [symmetric])
  with assms(2,3) True show ?thesis
    by (cases x; cases y) (auto simp: fadd_def signed_zero_def)
next
  case False
  have sum: "fval x + fval y = real_of_int (a + b) / 2"
    using assms(4,5) by (simp add: add_divide_distrib)
  with False have "fval x + fval y \<noteq> 0" by simp
  with assms(2,3) have "fadd rt x y = rnd rt (fval x + fval y)"
    by (cases x; cases y) (auto simp: fadd_def)
  also have "\<dots> = Fin (real_of_int (a + b) / 2)"
    unfolding sum by (rule rnd_half [OF assms(1,6)])
  finally show ?thesis by simp
qed

lemma to_int64_finite:
  "is_finite x \<Longrightarrow> - (2 ^ 63) \<le> trunc (fval x) \<Longrightarrow> trunc (fval x) < 2 ^ 63 \<Longrightarrow>
   to_int64 rt x = trunc (fval x)"
  by (cases x) (auto simp: trunc_def)

lemma round_half_away_bounds:
  "real_of_int a \<le> r \<Longrightarrow> r \<le> real_of_int b \<Longrightarrow> a \<le> round_half_away r \<and> round_half_away r \<le> b"
  unfolding round_half_away_def by (auto; linarith)

lemma round_half_away_int: "round_half_away (real_of_int n) = n"
  unfolding round_half_away_def by (simp; linarith)


lemma round_half_away_numeral [simp]: "round_half_away (numeral k) = numeral k"
  using round_half_away_int [of "numeral k"] by simp

lemma trunc_numeral [simp]: "trunc (numeral k) = numeral k"
  by (simp add: trunc_def)

lemma round_half_away_zero [simp]: "round_half_away 0 = 0"
  by (simp add: round_half_away_def)





lemma trunc_bounds:
  "real_of_int a \<le> r \<Longrightarrow> r \<le> real_of_int b \<Longrightarrow> a \<le> 0 \<Longrightarrow> 0 \<le> b \<Longrightarrow> a \<le> trunc r \<and> trunc r \<le> b"
  unfolding trunc_def by (auto; linarith)

lemma trunc_nonneg_bounds:
  "real_of_int a \<le> r \<Longrightarrow> r \<le> real_of_int b \<Longrightarrow> 0 \<le> a \<Longrightarrow> a \<le> trunc r \<and> trunc r \<le> b"
  unfolding trunc_def by (auto; linarith)


lemma blend_formula:
  assumes rt: "ieee_rounding rt"
    and rs: "is_finite (renewScore rt d)" "0 \<le> fval (renewScore rt d)" "fval (renewScore rt d) \<le> 100"
    and bc: "is_finite (BatteryCharge d)" "\<bar>fval (BatteryCharge d)\<bar> \<le> 2 ^ 40"
  shows "blend rt d =
           trunc (real_of_int (round_half_away (fval (renewScore rt d))) * (1 / 2) +
                  (real_of_int (round_half_away (fval (BatteryCharge d))) - 20) * (1 / 2))"
proof -
  define n1 where "n1 = round_half_away (fval (renewScore rt d))"
  define n2 where "n2 = round_half_away (fval (BatteryCharge d))"
  have n1: "0 \<le> n1" "n1 \<le> 100"
    using round_half_away_bounds [of 0 "fval (renewScore rt d)" 100] rs by (simp_all add: n1_def)
  have n2: "- (2 ^ 40) \<le> n2" "n2 \<le> 2 ^ 40"
    using round_half_away_bounds [of "- (2 ^ 40)" "fval (BatteryCharge d)" "2 ^ 40"] bc(2)
    by (simp_all add: n2_def)
  have R1: "is_finite (Round (renewScore rt d))" "fval (Round (renewScore rt d)) = real_of_int n1"
    using Round_finite [OF rs(1)] by (simp_all add: n1_def)
  have H1: "is_finite (fmul rt (Round (renewScore rt d)) (Fin (1 / 2)))"
    "fval (fmul rt (Round (renewScore rt d)) (Fin (1 / 2))) = real_of_int n1 / 2"
    using fmul_half [OF rt R1] n1 by simp_all
  have R2: "is_finite (Round (BatteryCharge d))" "fval (Round (BatteryCharge d)) = real_of_int n2"
    using Round_finite [OF bc(1)] by (simp_all add: n2_def)
  have D2: "is_finite (fsub rt (Round (BatteryCharge d)) (Fin 20))"
    "fval (fsub rt (Round (BatteryCharge d)) (Fin 20)) = real_of_int (n2 - 20)"
    using fsub_twenty [OF rt R2] n2 by simp_all
  have H2: "is_finite (fmul rt (fsub rt (Round (BatteryCharge d)) (Fin 20)) (Fin (1 / 2)))"
    "fval (fmul rt (fsub rt (Round (BatteryCharge d)) (Fin 20)) (Fin (1 / 2))) = real_of_int (n2 - 20) / 2"
    using fmul_half [OF rt D2] n2 by simp_all
  let ?sum = "fadd rt (fmul rt (Round (renewScore rt d)) (Fin (1 / 2)))
                      (fmul rt (fsub rt (Round (BatteryCharge d)) (Fin 20)) (Fin (1 / 2)))"
  have S: "is_finite ?sum" "fval ?sum = real_of_int (n1 + (n2 - 20)) / 2"
    using fadd_halves [OF rt H1(1) H2(1) H1(2) H2(2)] n1 n2 by simp_all
  have "real_of_int (- (2 ^ 40)) \<le> fval ?sum" "fval ?sum \<le> real_of_int (2 ^ 40)"
    unfolding S(2) using n1 n2 by simp_all
  then have "- (2 ^ 40) \<le> trunc (fval ?sum) \<and> trunc (fval ?sum) \<le> 2 ^ 40"
    by (intro trunc_bounds) simp_all
  then have "to_int64 rt ?sum = trunc (fval ?sum)"
    by (intro to_int64_finite S(1)) simp_all
  then show ?thesis
    unfolding blend_def S(2) n1_def n2_def by (simp add: add_divide_distrib)
qed

lemma Score_matched:
  assumes "GetData rt w = Inr apiData"
    and "slice_index (NodeInfos_List (fh pl))
           (IndexFunc (NodeInfos_List (fh pl)) (\<lambda>n. node_Name (Node n) = nodeName)) = Inr n"
    and "GetLocationData (map_read (Labels (Node n)) ''location'') apiData = Inr d"
  shows "Score rt w pl state pod nodeName = Inr (blend rt d, None)"
  using assms by (simp add: Score_def)


lemma renewScore_half:
  assumes rt: "ieee_rounding rt"
    and ro: "RenewableOutput d = Fin r" and ld: "PrimaryLoad d = Fin r" and r: "r \<noteq> 0"
  shows "renewScore rt d = Fin 50"
proof -
  have two: "rnd rt 2 = Fin 2" using rnd_int [OF rt, of 2] by simp
  have fifty: "rnd rt 50 = Fin 50" using rnd_int [OF rt, of 50] by simp
  have "fsub rt (Fin r) (Fin r) = Fin 0" by (simp add: fsub_def fadd_def signed_zero_def)
  moreover have "fdiv rt (Fin 0) (Fin r) = signed_zero (r < 0)"
    using r by (simp add: fdiv_def)
  moreover have "Pow_E rt (fmul rt (Fin (- 5)) (signed_zero (r < 0))) = Fin 1"
    by (simp add: fmul_def signed_zero_def)
  moreover have "fadd rt (Fin 1) (Fin 1) = Fin 2" by (simp add: fadd_def two)
  moreover have "fdiv rt (Fin 100) (Fin 2) = Fin 50" by (simp add: fdiv_def fifty)
  ultimately show ?thesis by (simp add: renewScore_def renewDiff_def ro ld)
qed

lemma blend_overcharged_ieee:
  assumes rt: "ieee_rounding rt"
  shows "blend rt (telemetry loc 1000 100 100) = 515"
proof -
  let ?d = "telemetry loc 1000 100 100"
  have rs: "renewScore rt ?d = Fin 50"
    by (rule renewScore_half [OF rt, of _ 100]) (simp_all add: telemetry_def)
  have bc: "BatteryCharge ?d = Fin 1000" by (simp add: telemetry_def)
  have "blend rt ?d =
      trunc (real_of_int (round_half_away (fval (renewScore rt ?d))) * (1 / 2) +
             (real_of_int (round_half_away (fval (BatteryCharge ?d))) - 20) * (1 / 2))"
    by (rule blend_formula [OF rt]) (simp_all add: rs bc)
  also have "\<dots> = 515" by (simp add: rs bc)
  finally show ?thesis .
qed

lemma blend_overcharged:
  "blend (table_runtime tbl) (telemetry loc 1000 100 100) = 515"
  by (rule blend_overcharged_ieee [OF ieee_rounding_table_runtime])

lemma blend_no_load:
  "blend (table_runtime tbl) (telemetry loc 80 120 0) = 80"
  by (simp add: blend_def renewScore_def renewDiff_def fdiv_def fsub_def fadd_def fmul_def
      signed_zero_def signed_inf_def table_runtime_def telemetry_def)

lemma Score_single:
  "Score (table_runtime [(body, [telemetry loc b r l])]) (serving body) (one_node name loc)
     state pod name = Inr (blend (table_runtime [(body, [telemetry loc b r l])]) (telemetry loc b r l), None)"
proof (rule Score_matched)
  show "GetData (table_runtime [(body, [telemetry loc b r l])]) (serving body) = Inr [telemetry loc b r l]"
    by (rule GetData_serving)
  show "slice_index (NodeInfos_List (fh (one_node name loc)))
     (IndexFunc (NodeInfos_List (fh (one_node name loc))) (\<lambda>n. node_Name (Node n) = name)) =
     Inr \<lparr>Node = \<lparr>node_Name = name, Labels = [''location'' \<mapsto> loc]\<rparr>\<rparr>"
    by (rule one_node_lookup)
  show "GetLocationData
     (map_read (Labels (Node \<lparr>Node = \<lparr>node_Name = name, Labels = [''location'' \<mapsto> loc]\<rparr>\<rparr>)) ''location'')
     [telemetry loc b r l] = Inr (telemetry loc b r l)"
    by (simp add: map_read_def GetLocationData_single)
qed

lemma renewScore_of_inf:
  assumes rt: "ieee_rounding rt" and q: "renewDiff rt d = PInf \<or> renewDiff rt d = NInf"
  shows "renewScore rt d = Fin (if renewDiff rt d = PInf then 100 else 0)"
proof -
  have one: "rnd rt 1 = Fin 1" using rnd_int [OF rt, of 1] by simp
  have hundred: "rnd rt 100 = Fin 100" using rnd_int [OF rt, of 100] by simp
  from q show ?thesis
  proof
    assume p: "renewDiff rt d = PInf"
    have "fmul rt (Fin (- 5)) PInf = NInf" by (simp add: fmul_def signed_inf_def)
    moreover have "fadd rt (Fin 1) (Fin 0) = Fin 1" by (simp add: fadd_def one)
    moreover have "fdiv rt (Fin 100) (Fin 1) = Fin 100" by (simp add: fdiv_def hundred)
    ultimately show ?thesis by (simp add: renewScore_def p)
  next
    assume n: "renewDiff rt d = NInf"
    have "fmul rt (Fin (- 5)) NInf = PInf" by (simp add: fmul_def signed_inf_def)
    moreover have "fadd rt (Fin 1) PInf = PInf" by (simp add: fadd_def)
    moreover have "fdiv rt (Fin 100) PInf = Fin 0" by (simp add: fdiv_def signed_zero_def)
    ultimately show ?thesis by (simp add: renewScore_def n)
  qed
qed

lemma renewDiff_zero_load:
  assumes ro: "is_finite (RenewableOutput d)" "\<not> is_zero (RenewableOutput d)"
      "rnd rt (fval (RenewableOutput d)) = RenewableOutput d"
    and ld: "is_zero (PrimaryLoad d)"
  shows "renewDiff rt d =
           (if (0 < fval (RenewableOutput d)) = (PrimaryLoad d = Fin 0) then PInf else NInf)"
proof -
  from ro(1,2) obtain r where r: "RenewableOutput d = Fin r" "r \<noteq> 0"
    by (cases "RenewableOutput d") auto
  with ro(3) have rr: "rnd rt r = Fin r" by simp
  from ld consider "PrimaryLoad d = Fin 0" | "PrimaryLoad d = NegZero"
    by (cases "PrimaryLoad d") auto
  then show ?thesis
  proof cases
    case 1
    have "fsub rt (Fin r) (Fin 0) = Fin r" using r rr by (simp add: fsub_def fadd_def)
    moreover have "fdiv rt (Fin r) (Fin 0) = (if 0 < r then PInf else NInf)"
      using r(2) by (simp add: fdiv_def signed_inf_def)
    ultimately show ?thesis by (simp add: renewDiff_def r(1) 1)
  next
    case 2
    have "fsub rt (Fin r) NegZero = Fin r" using r rr by (simp add: fsub_def fadd_def)
    moreover have "fdiv rt (Fin r) NegZero = (if 0 < r then NInf else PInf)"
      using r(2) by (simp add: fdiv_def signed_inf_def)
    ultimately show ?thesis by (simp add: renewDiff_def r(1) 2)
  qed
qed

lemma renewScore_zero_load:
  assumes rt: "ieee_rounding rt"
    and ro: "is_finite (RenewableOutput d)" "\<not> is_zero (RenewableOutput d)"
      "rnd rt (fval (RenewableOutput d)) = RenewableOutput d"
    and ld: "is_zero (PrimaryLoad d)"
  shows "renewScore rt d =
           Fin (if (0 < fval (RenewableOutput d)) = (PrimaryLoad d = Fin 0) then 100 else 0)"
  using renewScore_of_inf [OF rt, of d] renewDiff_zero_load [OF ro ld]
  by (simp split: if_splits)

lemma blend_zero_over_zero:
  assumes "is_zero (RenewableOutput d)" and "is_zero (PrimaryLoad d)"
  shows "blend rt d = cvt_invalid rt NaN"
proof -
  have "fsub rt (RenewableOutput d) (PrimaryLoad d) = Fin 0 \<or>
        fsub rt (RenewableOutput d) (PrimaryLoad d) = NegZero"
    using assms
    by (cases "RenewableOutput d"; cases "PrimaryLoad d") (auto simp: fsub_def fadd_def signed_zero_def)
  then have "renewDiff rt d = NaN"
    using assms(2) by (auto simp: renewDiff_def fdiv_def)
  then have "renewScore rt d = NaN"
    by (simp add: renewScore_def fmul_def fadd_def fdiv_def)
  then show ?thesis
    by (simp add: blend_def fmul_def fadd_def)
qed

section \<open>The claims\<close>

text \<open>
  C1.  When the telemetry fetch fails, be it the transport, the reading of the body or the
  decoding of the payload, \<^verbatim>\<open>Score\<close> returns the fallback score 22 with a nil
  status, for every plugin, cycle state, pod and node name.
\<close>

theorem Score_fetch_failure:
  "(http_Get w ''https://p9-scheduler-plugins.vercel.app/data'' = Inl err \<longrightarrow>
      Score rt w pl state pod nodeName = Inr (22, None)) \<and>
   (http_Get w ''https://p9-scheduler-plugins.vercel.app/data'' = Inr resp \<and> Body resp = Inl err \<longrightarrow>
      Score rt w pl state pod nodeName = Inr (22, None)) \<and>
   (http_Get w ''https://p9-scheduler-plugins.vercel.app/data'' = Inr resp \<and> Body resp = Inr body \<and>
      json_Unmarshal rt body = Inl err \<longrightarrow>
      Score rt w pl state pod nodeName = Inr (22, None))"
  by (simp add: Score_def GetData_def)

theorem Score_fetch_failure_witness:
  "Score (table_runtime []) unreachable (one_node ''node1'' ''aalborg'') Map.empty
     \<lparr>pod_Name = ''pod1''\<rparr> ''node1'' = Inr (22, None) \<and>
   Score (table_runtime []) (serving ''<html>'') (one_node ''node1'' ''aalborg'') Map.empty
     \<lparr>pod_Name = ''pod1''\<rparr> ''node1'' = Inr (22, None)"
proof -
  have a: "http_Get unreachable ''https://p9-scheduler-plugins.vercel.app/data'' =
      Inl (OtherError ''connection refused'')"
    by (simp add: unreachable_def)
  have b: "http_Get (serving ''<html>'') ''https://p9-scheduler-plugins.vercel.app/data'' =
      Inr \<lparr>Body = Inr ''<html>''\<rparr> \<and> Body \<lparr>Body = Inr ''<html>''\<rparr> = Inr ''<html>'' \<and>
      json_Unmarshal (table_runtime []) ''<html>'' = Inl (OtherError ''invalid character'')"
    by (simp add: serving_def table_runtime_def)
  from a b show ?thesis
    using Score_fetch_failure [where w = unreachable and err = "OtherError ''connection refused''"]
      Score_fetch_failure [where w = "serving ''<html>''" and rt = "table_runtime []"
        and resp = "\<lparr>Body = Inr ''<html>''\<rparr>" and body = "''<html>''"
        and err = "OtherError ''invalid character''"]
    by blast
qed

text \<open>
  C2.  A node whose location label matches no telemetry record: \<^verbatim>\<open>GetLocationData\<close>
  indexes the records at \<open>-1\<close>, and \<^verbatim>\<open>Score\<close> panics instead of returning the
  fallback score.  The evaluation at one such input.
\<close>

theorem Score_unmatched_location_panics:
  "Score (table_runtime [(body_sample, [telemetry ''aalborg'' 80 120 100])]) (serving body_sample)
     (one_node ''node1'' ''odense'') Map.empty \<lparr>pod_Name = ''pod1''\<rparr> ''node1'' =
   Inl (IndexOutOfRange (- 1))"
proof (rule Score_lookup_panics)
  show "GetData (table_runtime [(body_sample, [telemetry ''aalborg'' 80 120 100])])
      (serving body_sample) = Inr [telemetry ''aalborg'' 80 120 100]"
    by (rule GetData_serving)
  show "slice_index (NodeInfos_List (fh (one_node ''node1'' ''odense'')))
      (IndexFunc (NodeInfos_List (fh (one_node ''node1'' ''odense'')))
        (\<lambda>n. node_Name (Node n) = ''node1'')) =
      Inr \<lparr>Node = \<lparr>node_Name = ''node1'', Labels = [''location'' \<mapsto> ''odense'']\<rparr>\<rparr>"
    by (rule one_node_lookup)
  show "GetLocationData
      (map_read (Labels (Node \<lparr>Node = \<lparr>node_Name = ''node1'', Labels = [''location'' \<mapsto> ''odense'']\<rparr>\<rparr>))
        ''location'')
      [telemetry ''aalborg'' 80 120 100] = Inl (IndexOutOfRange (- 1))"
    by (simp add: map_read_def GetLocationData_def IndexFunc_def slice_index_def telemetry_def)
qed



text \<open>
  C4.  \<^verbatim>\<open>Score\<close> does not clamp: at battery charge 1000 (renewable output and
  primary load 100) it returns 515, above the band from 0 to 100.
\<close>

theorem Score_not_clamped_counterexample:
  "Score (table_runtime [(body_overcharged, [telemetry ''aalborg'' 1000 100 100])])
     (serving body_overcharged) (one_node ''node1'' ''aalborg'') Map.empty
     \<lparr>pod_Name = ''pod1''\<rparr> ''node1'' = Inr (515, None) \<and>
   (100::int) < 515"
  by (simp add: Score_single blend_overcharged)

text \<open>
  C4, as the code has it.  For a matched record with a finite \<open>RenewableOutput\<close>, a
  finite nonzero \<open>PrimaryLoad\<close> and a \<open>BatteryCharge\<close> between 20 and 120, the
  returned score is between 0 and 100 and the status is nil.
\<close>

theorem Score_in_band:
  assumes rt: "ieee_rounding rt"
    and fetch: "GetData rt w = Inr apiData"
    and node: "slice_index (NodeInfos_List (fh pl))
           (IndexFunc (NodeInfos_List (fh pl)) (\<lambda>n. node_Name (Node n) = nodeName)) = Inr n"
    and rec: "GetLocationData (map_read (Labels (Node n)) ''location'') apiData = Inr d"
    and ro: "is_finite (RenewableOutput d)"
    and ld: "is_finite (PrimaryLoad d)" "\<not> is_zero (PrimaryLoad d)"
    and bc: "is_finite (BatteryCharge d)" "20 \<le> fval (BatteryCharge d)" "fval (BatteryCharge d) \<le> 120"
  shows "\<exists>v. Score rt w pl state pod nodeName = Inr (v, None) \<and> 0 \<le> v \<and> v \<le> 100"
proof -
  define n1 where "n1 = round_half_away (fval (renewScore rt d))"
  define n2 where "n2 = round_half_away (fval (BatteryCharge d))"
  have rs: "is_finite (renewScore rt d)" "0 \<le> fval (renewScore rt d)" "fval (renewScore rt d) \<le> 100"
    using renewScore_range [OF rt ro ld] by simp_all
  have n1: "0 \<le> n1" "n1 \<le> 100"
    using round_half_away_bounds [of 0 "fval (renewScore rt d)" 100] rs by (simp_all add: n1_def)
  have n2: "20 \<le> n2" "n2 \<le> 120"
    using round_half_away_bounds [of 20 "fval (BatteryCharge d)" 120] bc by (simp_all add: n2_def)
  have "\<bar>fval (BatteryCharge d)\<bar> \<le> 2 ^ 40" using bc by simp
  from blend_formula [OF rt rs bc(1) this]
  have b: "blend rt d = trunc (real_of_int n1 * (1 / 2) + (real_of_int n2 - 20) * (1 / 2))"
    by (simp add: n1_def n2_def)
  have lo: "real_of_int 0 \<le> real_of_int n1 * (1 / 2) + (real_of_int n2 - 20) * (1 / 2)"
    using n1 n2 by simp
  have "n1 + (n2 - 20) \<le> 200" using n1 n2 by linarith
  then have "real_of_int (n1 + (n2 - 20)) \<le> 200" by (simp only: of_int_le_numeral_iff)
  then have hi: "real_of_int n1 * (1 / 2) + (real_of_int n2 - 20) * (1 / 2) \<le> real_of_int 100"
    by (simp add: field_simps)
  from lo hi
  have "0 \<le> blend rt d \<and> blend rt d \<le> 100"
    unfolding b by (intro trunc_nonneg_bounds) simp_all
  then show ?thesis using Score_matched [OF fetch node rec] by simp
qed

theorem Score_in_band_witness:
  "ieee_rounding (table_runtime [(body_half, [telemetry ''aalborg'' 50 100 100])]) \<and>
   GetData (table_runtime [(body_half, [telemetry ''aalborg'' 50 100 100])]) (serving body_half) =
     Inr [telemetry ''aalborg'' 50 100 100] \<and>
   (\<exists>v. Score (table_runtime [(body_half, [telemetry ''aalborg'' 50 100 100])]) (serving body_half)
          (one_node ''node1'' ''aalborg'') Map.empty \<lparr>pod_Name = ''pod1''\<rparr> ''node1'' = Inr (v, None) \<and>
        0 \<le> v \<and> v \<le> 100)"
proof -
  let ?d = "telemetry ''aalborg'' 50 100 100"
  let ?rt = "table_runtime [(body_half, [?d])]"
  have rt: "ieee_rounding ?rt" by (rule ieee_rounding_table_runtime)
  have g: "GetData ?rt (serving body_half) = Inr [?d]" by (rule GetData_serving)
  note n = one_node_lookup [of "''node1''" "''aalborg''"]
  have r: "GetLocationData
      (map_read (Labels (Node \<lparr>Node = \<lparr>node_Name = ''node1'', Labels = [''location'' \<mapsto> ''aalborg'']\<rparr>\<rparr>))
        ''location'') [?d] = Inr ?d"
    by (simp add: map_read_def GetLocationData_single)
  have f: "is_finite (RenewableOutput ?d)" "is_finite (PrimaryLoad ?d)" "\<not> is_zero (PrimaryLoad ?d)"
    "is_finite (BatteryCharge ?d)" "20 \<le> fval (BatteryCharge ?d)" "fval (BatteryCharge ?d) \<le> 120"
    by (simp_all add: telemetry_def)
  from Score_in_band [OF rt g n r f, of Map.empty "\<lparr>pod_Name = ''pod1''\<rparr>"] rt g
  show ?thesis by blast
qed

text \<open>
  C5.  A zero \<open>PrimaryLoad\<close> does not lead to the fallback score: with renewable
  output 120, primary load 0 and battery charge 80 the score is 80, not 22.
\<close>

theorem Score_no_load_counterexample:
  "Score (table_runtime [(body_no_load, [telemetry ''aalborg'' 80 120 0])])
     (serving body_no_load) (one_node ''node1'' ''aalborg'') Map.empty
     \<lparr>pod_Name = ''pod1''\<rparr> ''node1'' = Inr (80, None) \<and>
   Score (table_runtime [(body_no_load, [telemetry ''aalborg'' 80 120 0])])
     (serving body_no_load) (one_node ''node1'' ''aalborg'') Map.empty
     \<lparr>pod_Name = ''pod1''\<rparr> ''node1'' \<noteq> Inr (22, None)"
  by (simp add: Score_single blend_no_load)

text \<open>
  C5, as the code has it.  With a zero \<open>PrimaryLoad\<close> and a nonzero
  \<open>RenewableOutput\<close> the quotient is an infinity, \<open>renewScore\<close> is exactly 100 (the
  output and the zero have the same sign) or 0 (opposite signs), and the score is the
  integer \<open>round(renewScore) * 0.5 + (round(batteryCharge) - 20) * 0.5\<close> truncated
  toward zero, with a nil status.
\<close>

theorem Score_zero_load:
  assumes rt: "ieee_rounding rt"
    and fetch: "GetData rt w = Inr apiData"
    and node: "slice_index (NodeInfos_List (fh pl))
           (IndexFunc (NodeInfos_List (fh pl)) (\<lambda>n. node_Name (Node n) = nodeName)) = Inr n"
    and rec: "GetLocationData (map_read (Labels (Node n)) ''location'') apiData = Inr d"
    and ro: "is_finite (RenewableOutput d)" "\<not> is_zero (RenewableOutput d)"
      "rnd rt (fval (RenewableOutput d)) = RenewableOutput d"
    and ld: "is_zero (PrimaryLoad d)"
    and bc: "is_finite (BatteryCharge d)" "\<bar>fval (BatteryCharge d)\<bar> \<le> 2 ^ 40"
  shows "renewScore rt d =
           Fin (if (0 < fval (RenewableOutput d)) = (PrimaryLoad d = Fin 0) then 100 else 0) \<and>
         Score rt w pl state pod nodeName =
           Inr (trunc ((if (0 < fval (RenewableOutput d)) = (PrimaryLoad d = Fin 0) then 100 else 0)
                         * (1 / 2) +
                       (real_of_int (round_half_away (fval (BatteryCharge d))) - 20) * (1 / 2)),
                None)"
proof -
  note rs = renewScore_zero_load [OF rt ro ld]
  have "blend rt d =
      trunc (real_of_int (round_half_away (fval (renewScore rt d))) * (1 / 2) +
             (real_of_int (round_half_away (fval (BatteryCharge d))) - 20) * (1 / 2))"
    by (rule blend_formula [OF rt _ _ _ bc]) (simp_all add: rs)
  then show ?thesis
    using Score_matched [OF fetch node rec] rs by simp
qed

theorem Score_zero_load_witness:
  "ieee_rounding (table_runtime [(body_no_load, [telemetry ''aalborg'' 80 120 0])]) \<and>
   is_zero (PrimaryLoad (telemetry ''aalborg'' 80 120 0)) \<and>
   Score (table_runtime [(body_no_load, [telemetry ''aalborg'' 80 120 0])]) (serving body_no_load)
     (one_node ''node1'' ''aalborg'') Map.empty \<lparr>pod_Name = ''pod1''\<rparr> ''node1'' = Inr (80, None)"
proof -
  let ?d = "telemetry ''aalborg'' 80 120 0"
  let ?rt = "table_runtime [(body_no_load, [?d])]"
  have rt: "ieee_rounding ?rt" by (rule ieee_rounding_table_runtime)
  have g: "GetData ?rt (serving body_no_load) = Inr [?d]" by (rule GetData_serving)
  note n = one_node_lookup [of "''node1''" "''aalborg''"]
  have r: "GetLocationData
      (map_read (Labels (Node \<lparr>Node = \<lparr>node_Name = ''node1'', Labels = [''location'' \<mapsto> ''aalborg'']\<rparr>\<rparr>))
        ''location'') [?d] = Inr ?d"
    by (simp add: map_read_def GetLocationData_single)
  have f: "is_finite (RenewableOutput ?d)" "\<not> is_zero (RenewableOutput ?d)"
    "rnd ?rt (fval (RenewableOutput ?d)) = RenewableOutput ?d"
    "is_zero (PrimaryLoad ?d)" "is_finite (BatteryCharge ?d)" "\<bar>fval (BatteryCharge ?d)\<bar> \<le> 2 ^ 40"
    by (simp_all add: telemetry_def table_runtime_def)
  have z: "PrimaryLoad ?d = Fin 0" "fval (RenewableOutput ?d) = 120" "fval (BatteryCharge ?d) = 80"
    by (simp_all add: telemetry_def)
  from Score_zero_load [OF rt g n r f, of Map.empty "\<lparr>pod_Name = ''pod1''\<rparr>"]
  have "Score ?rt (serving body_no_load) (one_node ''node1'' ''aalborg'') Map.empty
      \<lparr>pod_Name = ''pod1''\<rparr> ''node1'' = Inr (80, None)"
    by (simp add: z)
  with rt f(4) show ?thesis by blast
qed

text \<open>
  C6.  \<^verbatim>\<open>PreScore\<close> panics on the empty pod name: the slice
  \<^verbatim>\<open>pod.Name[len(pod.Name)-1:]\<close> starts at \<open>-1\<close>.
\<close>

theorem PreScore_empty_name_counterexample:
  "PreScore (one_node ''node1'' ''aalborg'') Map.empty \<lparr>pod_Name = ''''\<rparr> [] =
     Inl (SliceBoundsOutOfRange (- 1))"
  by (simp add: PreScore_def slice_from_def)

text \<open>
  C6, as the code has it.  For every nonempty pod name: when its last byte is a decimal
  digit \<open>d\<close>, \<^verbatim>\<open>PreScore\<close> writes \<open>d\<close> (between 0 and 9) under
  \<open>preScoreStateKey\<close> and returns a nil status; otherwise it leaves the cycle state as
  it is and returns a nil status.
\<close>

theorem PreScore_suffix:
  assumes "pod_Name pod \<noteq> []"
  shows "(is_digit (last (pod_Name pod)) \<longrightarrow>
            0 \<le> int (of_char (last (pod_Name pod))) - 48 \<and>
            int (of_char (last (pod_Name pod))) - 48 \<le> 9 \<and>
            PreScore pl state pod nodes =
              Inr (state(preScoreStateKey \<mapsto>
                     \<lparr>podSuffixNumber = int (of_char (last (pod_Name pod))) - 48\<rparr>), None)) \<and>
         (\<not> is_digit (last (pod_Name pod)) \<longrightarrow>
            PreScore pl state pod nodes = Inr (state, None))"
  using is_digit_range [of "last (pod_Name pod)"]
  by (simp add: PreScore_def slice_from_last [OF assms] Atoi_single)

theorem PreScore_suffix_witness:
  "PreScore (one_node ''node1'' ''aalborg'') Map.empty \<lparr>pod_Name = ''pod7''\<rparr> [] =
     Inr ([preScoreStateKey \<mapsto> \<lparr>podSuffixNumber = 7\<rparr>], None) \<and>
   PreScore (one_node ''node1'' ''aalborg'') Map.empty \<lparr>pod_Name = ''web''\<rparr> [] =
     Inr (Map.empty, None)"
proof -
  have a: "pod_Name \<lparr>pod_Name = ''pod7''\<rparr> \<noteq> []" and b: "pod_Name \<lparr>pod_Name = ''web''\<rparr> \<noteq> []"
    by simp_all
  have c: "is_digit (last (pod_Name \<lparr>pod_Name = ''pod7''\<rparr>))"
    "int (of_char (last (pod_Name \<lparr>pod_Name = ''pod7''\<rparr>))) - 48 = 7"
    "\<not> is_digit (last (pod_Name \<lparr>pod_Name = ''web''\<rparr>))"
    by (simp_all add: is_digit_def)
  show ?thesis
    using PreScore_suffix [OF a, of "one_node ''node1'' ''aalborg''" Map.empty "[]"]
      PreScore_suffix [OF b, of "one_node ''node1'' ''aalborg''" Map.empty "[]"] c
    by simp
qed

text \<open>
  C7.  The \<open>reverse\<close> field of the plugin has no effect on \<^verbatim>\<open>Score\<close>.
\<close>

theorem Score_reverse_irrelevant:
  "Score rt w (pl\<lparr>reverse := True\<rparr>) state pod nodeName =
   Score rt w (pl\<lparr>reverse := False\<rparr>) state pod nodeName"
  by (simp add: Score_def split: sum.splits)

text \<open>
  C8.  \<^verbatim>\<open>Score\<close> reads neither the pod nor the cycle state, so it cannot depend on
  what \<^verbatim>\<open>PreScore\<close> stored: with the same runtime, network, plugin and node name,
  any two pods and cycle states give the same result.
\<close>

theorem Score_ignores_pod_and_state:
  "Score rt w pl state1 pod1 nodeName = Score rt w pl state2 pod2 nodeName"
  by (simp add: Score_def)

text \<open>
  C9.  \<^verbatim>\<open>GetData\<close> returns an error exactly when \<^verbatim>\<open>http.Get\<close> fails, or the
  reading of the body fails, or \<^verbatim>\<open>json.Unmarshal\<close> rejects the body; otherwise it
  returns the decoded records.
\<close>

theorem GetData_error_iff:
  "(isl (GetData rt w) \<longleftrightarrow>
      isl (http_Get w ''https://p9-scheduler-plugins.vercel.app/data'') \<or>
      (\<exists>resp. http_Get w ''https://p9-scheduler-plugins.vercel.app/data'' = Inr resp \<and>
         (isl (Body resp) \<or>
          (\<exists>body. Body resp = Inr body \<and> isl (json_Unmarshal rt body))))) \<and>
   (\<forall>resp body data.
      http_Get w ''https://p9-scheduler-plugins.vercel.app/data'' = Inr resp \<and> Body resp = Inr body \<and>
      json_Unmarshal rt body = Inr data \<longrightarrow> GetData rt w = Inr data)"
  by (auto simp: GetData_def split: sum.splits)

theorem GetData_error_iff_witness:
  "GetData (table_runtime [(body_sample, [telemetry ''aalborg'' 80 120 100])]) (serving body_sample) =
     Inr [telemetry ''aalborg'' 80 120 100] \<and>
   isl (GetData (table_runtime []) unreachable)"
proof -
  let ?rt = "table_runtime [(body_sample, [telemetry ''aalborg'' 80 120 100])]"
  have "http_Get (serving body_sample) ''https://p9-scheduler-plugins.vercel.app/data'' =
      Inr \<lparr>Body = Inr body_sample\<rparr> \<and> Body \<lparr>Body = Inr body_sample\<rparr> = Inr body_sample \<and>
      json_Unmarshal ?rt body_sample = Inr [telemetry ''aalborg'' 80 120 100]"
    by (simp add: serving_def table_runtime_def)
  moreover have "isl (http_Get unreachable ''https://p9-scheduler-plugins.vercel.app/data'')"
    by (simp add: unreachable_def)
  ultimately show ?thesis
    using GetData_error_iff [of ?rt "serving body_sample"]
      GetData_error_iff [of "table_runtime []" unreachable]
    by blast
qed

text \<open>
  C10.  After a successful fetch \<^verbatim>\<open>Score\<close> indexes the snapshot's node list at
  \<^verbatim>\<open>slices.IndexFunc\<close> of the node name.  When some node of the list has the name,
  the index is that of the first such node, it is in bounds, and the score is computed
  from that node's location label; when none has, the index is \<open>-1\<close> and
  \<^verbatim>\<open>Score\<close> panics with an index out of range.
\<close>

theorem Score_node_lookup:
  assumes "GetData rt w = Inr apiData"
  shows "(let nodeList = NodeInfos_List (fh pl);
              idx = IndexFunc nodeList (\<lambda>n. node_Name (Node n) = nodeName)
          in ((\<exists>n \<in> set nodeList. node_Name (Node n) = nodeName) \<longrightarrow>
                0 \<le> idx \<and> idx < int (length nodeList) \<and>
                node_Name (Node (nodeList ! nat idx)) = nodeName \<and>
                (\<forall>j < nat idx. node_Name (Node (nodeList ! j)) \<noteq> nodeName) \<and>
                Score rt w pl state pod nodeName =
                  (case GetLocationData (map_read (Labels (Node (nodeList ! nat idx))) ''location'')
                          apiData of
                     Inl p \<Rightarrow> Inl p
                   | Inr d \<Rightarrow> Inr (blend rt d, None))) \<and>
             ((\<forall>n \<in> set nodeList. node_Name (Node n) \<noteq> nodeName) \<longrightarrow>
                idx = - 1 \<and> Score rt w pl state pod nodeName = Inl (IndexOutOfRange (- 1))))"
proof -
  let ?l = "NodeInfos_List (fh pl)"
  let ?f = "\<lambda>n. node_Name (Node n) = nodeName"
  have found: "0 \<le> IndexFunc ?l ?f \<and> IndexFunc ?l ?f < int (length ?l) \<and>
      ?f (?l ! nat (IndexFunc ?l ?f)) \<and> (\<forall>j < nat (IndexFunc ?l ?f). \<not> ?f (?l ! j)) \<and>
      Score rt w pl state pod nodeName =
        (case GetLocationData (map_read (Labels (Node (?l ! nat (IndexFunc ?l ?f)))) ''location'')
                apiData of
           Inl p \<Rightarrow> Inl p
         | Inr d \<Rightarrow> Inr (blend rt d, None))"
    if ex: "\<exists>n \<in> set ?l. ?f n"
  proof -
    note I = IndexFunc_found [of ?l ?f, OF ex]
    have "slice_index ?l (IndexFunc ?l ?f) = Inr (?l ! nat (IndexFunc ?l ?f))"
      by (rule slice_index_in [OF I(1,2)])
    then have "Score rt w pl state pod nodeName =
        (case GetLocationData (map_read (Labels (Node (?l ! nat (IndexFunc ?l ?f)))) ''location'')
                apiData of
           Inl p \<Rightarrow> Inl p
         | Inr d \<Rightarrow> Inr (blend rt d, None))"
      using assms by (simp add: Score_def Let_def)
    with I show ?thesis by blast
  qed
  have missing: "IndexFunc ?l ?f = - 1 \<and> Score rt w pl state pod nodeName = Inl (IndexOutOfRange (- 1))"
    if no: "\<forall>n \<in> set ?l. \<not> ?f n"
  proof -
    have i: "IndexFunc ?l ?f = - 1" by (rule IndexFunc_none) (use no in blast)
    then show ?thesis using assms by (simp add: Score_def Let_def slice_index_neg)
  qed
  show ?thesis unfolding Let_def using found missing by blast
qed

theorem Score_node_lookup_witness:
  "IndexFunc (NodeInfos_List (fh (one_node ''node1'' ''aalborg''))) (\<lambda>n. node_Name (Node n) = ''node1'') = 0 \<and>
   Score (table_runtime [(body_sample, [telemetry ''aalborg'' 80 120 100])]) (serving body_sample)
     (one_node ''node1'' ''aalborg'') Map.empty \<lparr>pod_Name = ''pod1''\<rparr> ''node2'' =
   Inl (IndexOutOfRange (- 1))"
proof -
  let ?rt = "table_runtime [(body_sample, [telemetry ''aalborg'' 80 120 100])]"
  let ?pl = "one_node ''node1'' ''aalborg''"
  have g: "GetData ?rt (serving body_sample) = Inr [telemetry ''aalborg'' 80 120 100]"
    by (rule GetData_serving)
  have l: "NodeInfos_List (fh ?pl) =
      [\<lparr>Node = \<lparr>node_Name = ''node1'', Labels = [''location'' \<mapsto> ''aalborg'']\<rparr>\<rparr>]"
    by (simp add: one_node_def)
  show ?thesis
    using Score_node_lookup [OF g, of ?pl "''node1''" Map.empty "\<lparr>pod_Name = ''pod1''\<rparr>"]
      Score_node_lookup [OF g, of ?pl "''node2''" Map.empty "\<lparr>pod_Name = ''pod1''\<rparr>"]
    by (simp add: Let_def l)
qed

end
